theory Spec2Isabelle
  imports Main "HOL-Library.Word"
begin

unbundle bit_operations_syntax

section \<open>Data model of rpc/jsonrpc_server.go\<close>

text \<open>
  Go's \<^verbatim>\<open>uint64\<close> and \<^verbatim>\<open>int64\<close> are 64-bit words: subtraction wraps, \<open>uint64\<close> values are
  compared with the unsigned order \<open><\<close>, \<open>int64\<close> values with the signed order \<open><s\<close>.
  An \<^verbatim>\<open>ids.ID\<close> is an array of 32 bytes, read here as one 256-bit word; \<^verbatim>\<open>ids.Empty\<close>
  is its zero value.
\<close>

type_synonym uint64 = "64 word"
type_synonym int64 = "64 word"
type_synonym byte = "8 word"
type_synonym ID = "256 word"

definition Empty :: ID where
  "Empty = 0"

text \<open>A Go \<^verbatim>\<open>error\<close> value carries its message.\<close>

datatype error = Error string

text \<open>
  The action of a transaction is an interface value; the type switch of \<open>AcceptBlock\<close>
  singles out \<^verbatim>\<open>*actions.SequencerMsg\<close>, whose fields \<open>ChainId\<close> and \<open>Data\<close> it reads. Every
  other registered action kind falls through the switch.
\<close>

datatype Action =
  SequencerMsg (ChainId: "byte list") (Data: "byte list")
| OtherAction nat

text \<open>\<^verbatim>\<open>chain.Transaction\<close>: \<open>tx_id\<close> is what \<^verbatim>\<open>tx.ID()\<close> returns.\<close>

record Transaction =
  tx_id :: ID
  Action :: Action

record Result =
  Success :: bool

text \<open>\<^verbatim>\<open>chain.StatefulBlock\<close>, the header retained by the server.\<close>

record StatefulBlock =
  Prnt :: ID
  Tmstmp :: int64
  Hght :: uint64
  Txs :: "Transaction list"
  StateRoot :: ID

text \<open>
  \<^verbatim>\<open>chain.StatelessBlock\<close> embeds a \<open>StatefulBlock\<close> (whose fields are promoted) and carries
  its serialised form.
\<close>

record StatelessBlock = StatefulBlock +
  bytes :: "byte list"

record SEQTransaction =
  Namespace :: string
  Tx_id :: ID
  Transaction :: "byte list"
  Index :: uint64

record SequencerBlock =
  StateRoot :: ID
  Prnt :: ID
  Tmstmp :: int64
  Hght :: uint64
  Txs :: "string \<rightharpoonup> SEQTransaction list"

record BlockInfo =
  BlockId :: ID

record BlockHeadersResponse =
  From :: uint64
  Blocks :: "BlockInfo list"
  Prev :: BlockInfo
  Next :: BlockInfo

record TransactionResponse =
  Txs :: "Transaction list"
  BlockId :: ID

record SEQTransactionResponse =
  Txs :: "SEQTransaction list"
  BlockId :: ID

record GetBlockHeadersByHeightArgs =
  Height :: uint64
  End :: int64

record GetBlockHeadersIDArgs =
  ID :: string
  End :: int64

record GetBlockHeadersByStartArgs =
  Start :: int64
  End :: int64

record GetBlockTransactionsArgs =
  ID :: string

record GetBlockTransactionsByNamespaceArgs =
  ID :: string
  Namespace :: string

subsection \<open>The ordered map \<^verbatim>\<open>btree.Map\<close>\<close>

text \<open>
  An ordered map is its in-order contents: a list of (key, value) pairs with strictly
  ascending keys. \<open>Set\<close> inserts or replaces, \<open>Get\<close> looks a key up, and
  \<open>Ascend pivot iter\<close> calls \<open>iter\<close> on the entries with key \<open>\<ge> pivot\<close> in ascending
  order until \<open>iter\<close> returns false.
\<close>

type_synonym ('k, 'v) btree_map = "('k \<times> 'v) list"

fun btree_Set :: "'k::linorder \<Rightarrow> 'v \<Rightarrow> ('k, 'v) btree_map \<Rightarrow> ('k, 'v) btree_map" where
  "btree_Set k v [] = [(k, v)]"
| "btree_Set k v ((k', v') # xs) =
     (if k < k' then (k, v) # (k', v') # xs
      else if k = k' then (k, v) # xs
      else (k', v') # btree_Set k v xs)"

definition btree_Get :: "('k, 'v) btree_map \<Rightarrow> 'k \<Rightarrow> 'v option" where
  "btree_Get m k = map_of m k"

text \<open>
  What one call of an iterator does to the variables it closes over: it returns true
  (\<open>Continue\<close>), returns false (\<open>Stop\<close>), or panics.
\<close>

datatype 's iter = Continue 's | Stop 's | IterPanic

fun iterate :: "('k \<times> 'v) list \<Rightarrow> ('k \<Rightarrow> 'v \<Rightarrow> 's \<Rightarrow> 's iter) \<Rightarrow> 's \<Rightarrow> 's option" where
  "iterate [] iter s = Some s"
| "iterate ((k, v) # xs) iter s =
     (case iter k v s of
        Continue s' \<Rightarrow> iterate xs iter s'
      | Stop s' \<Rightarrow> Some s'
      | IterPanic \<Rightarrow> None)"

definition seek :: "('k::linorder, 'v) btree_map \<Rightarrow> 'k \<Rightarrow> ('k \<times> 'v) list" where
  "seek m pivot = dropWhile (\<lambda>(k, v). k < pivot) m"

definition btree_Ascend ::
  "('k::linorder, 'v) btree_map \<Rightarrow> 'k \<Rightarrow> ('k \<Rightarrow> 'v \<Rightarrow> 's \<Rightarrow> 's iter) \<Rightarrow> 's \<Rightarrow> 's option" where
  "btree_Ascend m pivot iter s = iterate (seek m pivot) iter s"

subsection \<open>The server\<close>

text \<open>
  \<open>headers\<close> maps a block identifier to a pointer to its header; a stored pointer can be
  nil (\<open>Some None\<close>), and so can the result of a lookup of an absent key. The time index
  \<open>blocks\<close> is only ever read with \<open>Get\<close> and written with \<open>Set\<close>, so it is kept as a
  finite map.
\<close>

record JSONRPCServer =
  headers :: "ID \<rightharpoonup> StatefulBlock option"
  blocksWithValidTxs :: "ID \<rightharpoonup> SequencerBlock"
  idsByHeight :: "(uint64, ID) btree_map"
  blocks :: "int64 \<rightharpoonup> uint64"

definition NewJSONRPCServer :: JSONRPCServer where
  "NewJSONRPCServer =
     \<lparr>headers = Map.empty, blocksWithValidTxs = Map.empty, idsByHeight = [], blocks = Map.empty\<rparr>"

text \<open>How a call ends: it returns its \<open>error\<close> result (\<open>None\<close> is Go's nil), or it panics.\<close>

datatype outcome = Returned "error option" | Panicked

text \<open>
  The handlers receive \<open>reply\<close>, a pointer to a response object owned by the caller. The
  response objects live in a store (a list; a pointer is an index into it). Taking the
  address of a fresh local variable allocates a new cell. A handler call ends in a frame:
  the store, the final value of its local variable \<open>reply\<close>, and the outcome.
\<close>

type_synonym ptr = nat

record 'r frame =
  store :: "'r list"
  reply_var :: ptr
  outcome :: outcome

definition address_of :: "'r list \<Rightarrow> 'r \<Rightarrow> 'r list \<times> ptr" where
  "address_of st v = (st @ [v], length st)"

text \<open>The object the handler's own \<open>reply\<close> variable points to when the call ends.\<close>

definition computed :: "'r frame \<Rightarrow> 'r" where
  "computed f = store f ! reply_var f"

text \<open>The object the caller's pointer \<open>p\<close> points to after the call.\<close>

definition visible :: "'r frame \<Rightarrow> ptr \<Rightarrow> 'r" where
  "visible f p = store f ! p"

section \<open>The query handlers\<close>

text \<open>
  \<open>getBlockHeadersByHeight\<close>. The iterator passed to \<open>Ascend\<close> closes over \<open>blocks\<close> and
  \<open>Next\<close>; \<open>j.headers[id]\<close> is nil for an absent identifier, and reading a field through a
  nil pointer panics. The last statement \<^verbatim>\<open>reply = &res\<close> stores the address of the local
  \<open>res\<close> in the local variable \<open>reply\<close>.
\<close>

definition getBlockHeadersByHeight ::
  "JSONRPCServer \<Rightarrow> GetBlockHeadersByHeightArgs \<Rightarrow> BlockHeadersResponse list \<Rightarrow> ptr
     \<Rightarrow> BlockHeadersResponse frame" where
  "getBlockHeadersByHeight j args st reply =
     (let Prev = (case btree_Get (idsByHeight j) (Height args - 1) of
                    Some prevBlkId \<Rightarrow> \<lparr>BlockInfo.BlockId = prevBlkId\<rparr>
                  | None \<Rightarrow> \<lparr>BlockInfo.BlockId = Empty\<rparr>)
      in case btree_Ascend (idsByHeight j) (Height args)
             (\<lambda>heightKey id (blocks, Next).
                case headers j id of
                  Some (Some blk) \<Rightarrow>
                    (let blocks = (if StatefulBlock.Hght blk = heightKey
                                   then blocks @ [\<lparr>BlockInfo.BlockId = id\<rparr>] else blocks)
                     in if GetBlockHeadersByHeightArgs.End args <s StatefulBlock.Tmstmp blk
                        then Stop (blocks, \<lparr>BlockInfo.BlockId = id\<rparr>)
                        else Continue (blocks, Next))
                | _ \<Rightarrow> IterPanic)
             ([], \<lparr>BlockInfo.BlockId = Empty\<rparr>) of
           None \<Rightarrow> \<lparr>store = st, reply_var = reply, outcome = Panicked\<rparr>
         | Some bn \<Rightarrow>
             (let res = \<lparr>From = Height args, Blocks = fst bn, Prev = Prev, Next = snd bn\<rparr>;
                  a = address_of st res
              in \<lparr>store = fst a, reply_var = snd a, outcome = Returned None\<rparr>))"

text \<open>
  \<open>getBlockHeadersID\<close>; \<open>FromString\<close> is \<^verbatim>\<open>ids.FromString\<close>, the parser of the textual form
  of an identifier.
\<close>

definition getBlockHeadersID ::
  "(string \<Rightarrow> error + ID) \<Rightarrow> JSONRPCServer \<Rightarrow> GetBlockHeadersIDArgs
     \<Rightarrow> BlockHeadersResponse list \<Rightarrow> ptr \<Rightarrow> BlockHeadersResponse frame" where
  "getBlockHeadersID FromString j args st reply =
     (if GetBlockHeadersIDArgs.ID args \<noteq> [] then
        (case FromString (GetBlockHeadersIDArgs.ID args) of
           Inl err \<Rightarrow> \<lparr>store = st, reply_var = reply, outcome = Returned (Some err)\<rparr>
         | Inr id' \<Rightarrow>
            (case headers j id' of
               Some (Some block) \<Rightarrow>
                 (let firstBlock = StatefulBlock.Hght block;
                      Prev = (case btree_Get (idsByHeight j) (firstBlock - 1) of
                                Some prevBlkId \<Rightarrow> \<lparr>BlockInfo.BlockId = prevBlkId\<rparr>
                              | None \<Rightarrow> \<lparr>BlockInfo.BlockId = Empty\<rparr>)
                  in case btree_Ascend (idsByHeight j) firstBlock
                         (\<lambda>heightKey id (blocks, Next).
                            case headers j id of
                              Some (Some blk) \<Rightarrow>
                                (let blocks = (if StatefulBlock.Hght blk = heightKey
                                               then blocks @ [\<lparr>BlockInfo.BlockId = id\<rparr>]
                                               else blocks)
                                 in if GetBlockHeadersIDArgs.End args <s StatefulBlock.Tmstmp blk
                                    then Stop (blocks, \<lparr>BlockInfo.BlockId = id\<rparr>)
                                    else Continue (blocks, Next))
                            | _ \<Rightarrow> IterPanic)
                         ([], \<lparr>BlockInfo.BlockId = Empty\<rparr>) of
                       None \<Rightarrow> \<lparr>store = st, reply_var = reply, outcome = Panicked\<rparr>
                     | Some bn \<Rightarrow>
                         (let res = \<lparr>From = firstBlock, Blocks = fst bn, Prev = Prev,
                                     Next = snd bn\<rparr>;
                              a = address_of st res
                          in \<lparr>store = fst a, reply_var = snd a, outcome = Returned None\<rparr>))
             | _ \<Rightarrow> \<lparr>store = st, reply_var = reply, outcome = Panicked\<rparr>))
      else \<lparr>store = st, reply_var = reply, outcome = Returned None\<rparr>)"

text \<open>\<open>getBlockHeadersByStart\<close>; \<open>firstBlock\<close> keeps its zero value when the lookup fails.\<close>

definition getBlockHeadersByStart ::
  "JSONRPCServer \<Rightarrow> GetBlockHeadersByStartArgs \<Rightarrow> BlockHeadersResponse list \<Rightarrow> ptr
     \<Rightarrow> BlockHeadersResponse frame" where
  "getBlockHeadersByStart j args st reply =
     (let firstBlock = (case blocks j (Start args) of
                          Some heightFound \<Rightarrow> heightFound
                        | None \<Rightarrow> 0);
          Prev = (case btree_Get (idsByHeight j) (firstBlock - 1) of
                    Some prevBlkId \<Rightarrow> \<lparr>BlockInfo.BlockId = prevBlkId\<rparr>
                  | None \<Rightarrow> \<lparr>BlockInfo.BlockId = Empty\<rparr>)
      in case btree_Ascend (idsByHeight j) firstBlock
             (\<lambda>heightKey id (blocks, Next).
                case headers j id of
                  Some (Some blk) \<Rightarrow>
                    (let blocks = (if StatefulBlock.Hght blk = heightKey
                                   then blocks @ [\<lparr>BlockInfo.BlockId = id\<rparr>] else blocks)
                     in if GetBlockHeadersByStartArgs.End args <s StatefulBlock.Tmstmp blk
                        then Stop (blocks, \<lparr>BlockInfo.BlockId = id\<rparr>)
                        else Continue (blocks, Next))
                | _ \<Rightarrow> IterPanic)
             ([], \<lparr>BlockInfo.BlockId = Empty\<rparr>) of
           None \<Rightarrow> \<lparr>store = st, reply_var = reply, outcome = Panicked\<rparr>
         | Some bn \<Rightarrow>
             (let res = \<lparr>From = firstBlock, Blocks = fst bn, Prev = Prev, Next = snd bn\<rparr>;
                  a = address_of st res
              in \<lparr>store = fst a, reply_var = snd a, outcome = Returned None\<rparr>))"

text \<open>\<open>getBlockTransactions\<close> and \<open>getBlockTransactionsByNamespace\<close>.\<close>

definition getBlockTransactions ::
  "(string \<Rightarrow> error + ID) \<Rightarrow> JSONRPCServer \<Rightarrow> GetBlockTransactionsArgs
     \<Rightarrow> TransactionResponse list \<Rightarrow> ptr \<Rightarrow> TransactionResponse frame" where
  "getBlockTransactions FromString j args st reply =
     (if GetBlockTransactionsArgs.ID args \<noteq> [] then
        \<lparr>store = st, reply_var = reply, outcome = Returned None\<rparr>
      else
        (case FromString (GetBlockTransactionsArgs.ID args) of
           Inl err \<Rightarrow> \<lparr>store = st, reply_var = reply, outcome = Returned (Some err)\<rparr>
         | Inr id' \<Rightarrow>
            (case headers j id' of
               Some (Some block) \<Rightarrow>
                 (let res = \<lparr>TransactionResponse.Txs = StatefulBlock.Txs block,
                             TransactionResponse.BlockId = id'\<rparr>;
                      a = address_of st res
                  in \<lparr>store = fst a, reply_var = snd a, outcome = Returned None\<rparr>)
             | _ \<Rightarrow> \<lparr>store = st, reply_var = reply, outcome = Panicked\<rparr>)))"

text \<open>
  Indexing the map \<open>block.Txs\<close> with an absent namespace gives the nil slice, which is
  the empty sequence.
\<close>

definition getBlockTransactionsByNamespace ::
  "(string \<Rightarrow> error + ID) \<Rightarrow> JSONRPCServer \<Rightarrow> GetBlockTransactionsByNamespaceArgs
     \<Rightarrow> SEQTransactionResponse list \<Rightarrow> ptr \<Rightarrow> SEQTransactionResponse frame" where
  "getBlockTransactionsByNamespace FromString j args st reply =
     (if GetBlockTransactionsByNamespaceArgs.ID args \<noteq> [] then
        \<lparr>store = st, reply_var = reply, outcome = Returned None\<rparr>
      else
        (case FromString (GetBlockTransactionsByNamespaceArgs.ID args) of
           Inl err \<Rightarrow> \<lparr>store = st, reply_var = reply, outcome = Returned (Some err)\<rparr>
         | Inr id' \<Rightarrow>
            (case blocksWithValidTxs j id' of
               Some block \<Rightarrow>
                 (let txs = (case SequencerBlock.Txs block (Namespace args) of
                               Some l \<Rightarrow> l
                             | None \<Rightarrow> []);
                      res = \<lparr>SEQTransactionResponse.Txs = txs,
                             SEQTransactionResponse.BlockId = id'\<rparr>;
                      a = address_of st res
                  in \<lparr>store = fst a, reply_var = snd a, outcome = Returned None\<rparr>)
             | None \<Rightarrow> \<lparr>store = st, reply_var = reply, outcome = Panicked\<rparr>)))"

section \<open>Ingestion: \<open>AcceptBlock\<close>\<close>

text \<open>
  \<^verbatim>\<open>hex.EncodeToString\<close> of Go's standard library: two lower-case digits per byte, the
  high nibble first.
\<close>

definition hextable :: string where
  "hextable = ''0123456789abcdef''"

fun EncodeToString :: "byte list \<Rightarrow> string" where
  "EncodeToString [] = []"
| "EncodeToString (v # src) =
     hextable ! unat (drop_bit 4 v) # hextable ! unat (v AND 0x0f) # EncodeToString src"

text \<open>
  The loop over \<open>blk.Txs\<close>, with \<open>i\<close> the position of \<open>tx\<close>. \<open>results[i]\<close> panics when \<open>i\<close>
  is out of range (\<open>None\<close>). \<open>seq_txs[hx]\<close> is nil for an absent key, and appending to nil
  starts a fresh list. The pointers held in the slices \<open>blk.Txs\<close> and \<open>results\<close> are taken
  to be non-nil, as is \<open>blk\<close> itself.
\<close>

fun seq_txs_loop ::
  "nat \<Rightarrow> Transaction list \<Rightarrow> Result list \<Rightarrow> (string \<rightharpoonup> SEQTransaction list)
     \<Rightarrow> (string \<rightharpoonup> SEQTransaction list) option" where
  "seq_txs_loop i [] results seq_txs = Some seq_txs"
| "seq_txs_loop i (tx # txs) results seq_txs =
     (if i < length results then
        (let result = results ! i
         in if Success result then
              (case Action tx of
                 SequencerMsg chainId data \<Rightarrow>
                   (let hx = EncodeToString chainId;
                        cur = (case seq_txs hx of None \<Rightarrow> [] | Some l \<Rightarrow> l);
                        new_tx = \<lparr>SEQTransaction.Namespace = hx, Tx_id = tx_id tx,
                                  Transaction = data, Index = of_nat i\<rparr>
                    in seq_txs_loop (Suc i) txs results (seq_txs(hx \<mapsto> cur @ [new_tx])))
               | OtherAction _ \<Rightarrow> seq_txs_loop (Suc i) txs results seq_txs)
            else seq_txs_loop (Suc i) txs results seq_txs)
      else None)"

text \<open>
  The five values returned by \<^verbatim>\<open>rpc.UnpackBlockMessage\<close>, the unused dimensions left out:
  the pointers \<open>block\<close> and \<open>id\<close> can be nil.
\<close>

record Unpacked =
  block :: "StatefulBlock option"
  results :: "Result list"
  id_ptr :: "ID option"
  err :: "error option"

text \<open>
  \<open>AcceptBlock\<close>, with the two external steps \<^verbatim>\<open>rpc.PackBlockMessage\<close> and
  \<^verbatim>\<open>rpc.UnpackBlockMessage\<close> (applied with the server's parser) as parameters. The result
  is the state of the server when the call ends, and how it ends. The \<open>err\<close> returned by
  the unpacking step is assigned and never read.
\<close>

definition AcceptBlock ::
  "(StatelessBlock \<Rightarrow> error + byte list) \<Rightarrow> (byte list \<Rightarrow> Unpacked)
     \<Rightarrow> JSONRPCServer \<Rightarrow> StatelessBlock \<Rightarrow> JSONRPCServer \<times> outcome" where
  "AcceptBlock PackBlockMessage UnpackBlockMessage j blk =
     (case PackBlockMessage blk of
        Inl e \<Rightarrow> (j, Returned (Some e))
      | Inr msg \<Rightarrow>
         (let u = UnpackBlockMessage msg
          in case id_ptr u of
               None \<Rightarrow> (j, Panicked)
             | Some id' \<Rightarrow>
                (let j1 = j\<lparr>headers := (headers j)(id' \<mapsto> block u)\<rparr>
                 in case block u of
                      None \<Rightarrow> (j1, Panicked)
                    | Some b \<Rightarrow>
                       (let j2 = j1\<lparr>idsByHeight :=
                                      btree_Set (StatefulBlock.Hght b) id' (idsByHeight j1)\<rparr>;
                            j3 = j2\<lparr>blocks :=
                                      (blocks j2)(StatefulBlock.Tmstmp b \<mapsto> StatefulBlock.Hght b)\<rparr>
                        in case seq_txs_loop 0 (StatefulBlock.Txs blk) (results u) Map.empty of
                             None \<Rightarrow> (j3, Panicked)
                           | Some seq_txs \<Rightarrow>
                              (let sequencerBlock =
                                     \<lparr>SequencerBlock.StateRoot = StatefulBlock.StateRoot blk,
                                      SequencerBlock.Prnt = StatefulBlock.Prnt blk,
                                      SequencerBlock.Tmstmp = StatefulBlock.Tmstmp blk,
                                      SequencerBlock.Hght = StatefulBlock.Hght blk,
                                      SequencerBlock.Txs = seq_txs\<rparr>
                               in (j3\<lparr>blocksWithValidTxs :=
                                        (blocksWithValidTxs j3)(id' \<mapsto> sequencerBlock)\<rparr>,
                                   Returned None))))))"

text \<open>
  A run of \<open>AcceptBlock\<close> calls, one per block, each of which returns nil; \<open>None\<close> when
  some call fails or panics.
\<close>

fun AcceptBlocks ::
  "(StatelessBlock \<Rightarrow> error + byte list) \<Rightarrow> (byte list \<Rightarrow> Unpacked)
     \<Rightarrow> JSONRPCServer \<Rightarrow> StatelessBlock list \<Rightarrow> JSONRPCServer option" where
  "AcceptBlocks pack unpack j [] = Some j"
| "AcceptBlocks pack unpack j (blk # blks) =
     (case AcceptBlock pack unpack j blk of
        (j', Returned None) \<Rightarrow> AcceptBlocks pack unpack j' blks
      | _ \<Rightarrow> None)"

section \<open>Notions of the specification\<close>

text \<open>The iterator of the three header queries, for the end bound \<open>e\<close>.\<close>

abbreviation visit ::
  "JSONRPCServer \<Rightarrow> int64 \<Rightarrow> uint64 \<Rightarrow> ID \<Rightarrow> BlockInfo list \<times> BlockInfo
     \<Rightarrow> (BlockInfo list \<times> BlockInfo) iter" where
  "visit j e \<equiv>
     (\<lambda>heightKey id (blocks, Next).
        case headers j id of
          Some (Some blk) \<Rightarrow>
            (let blocks = (if StatefulBlock.Hght blk = heightKey
                           then blocks @ [\<lparr>BlockInfo.BlockId = id\<rparr>] else blocks)
             in if e <s StatefulBlock.Tmstmp blk
                then Stop (blocks, \<lparr>BlockInfo.BlockId = id\<rparr>)
                else Continue (blocks, Next))
        | _ \<Rightarrow> IterPanic)"

text \<open>
  An indexed state: the height index is an ordered map (strictly ascending keys) and every
  identifier in it has a header in the header store.
\<close>

definition has_header :: "JSONRPCServer \<Rightarrow> uint64 \<times> ID \<Rightarrow> bool" where
  "has_header j kv = (case headers j (snd kv) of Some (Some blk) \<Rightarrow> True | _ \<Rightarrow> False)"

definition indexed :: "JSONRPCServer \<Rightarrow> bool" where
  "indexed j = (sorted_wrt (<) (map fst (idsByHeight j)) \<and> list_all (has_header j) (idsByHeight j))"

text \<open>
  An entry of the height index exceeds the end bound when the timestamp of its header is
  greater; it is consistent when the height of its header is its key.
\<close>

definition exceeds :: "JSONRPCServer \<Rightarrow> int64 \<Rightarrow> uint64 \<times> ID \<Rightarrow> bool" where
  "exceeds j e kv =
     (case headers j (snd kv) of Some (Some blk) \<Rightarrow> e <s StatefulBlock.Tmstmp blk | _ \<Rightarrow> False)"

definition consistent :: "JSONRPCServer \<Rightarrow> uint64 \<times> ID \<Rightarrow> bool" where
  "consistent j kv =
     (case headers j (snd kv) of Some (Some blk) \<Rightarrow> StatefulBlock.Hght blk = fst kv | _ \<Rightarrow> False)"

text \<open>
  The maximal ascending run of indexed heights from \<open>start\<close> whose timestamps are within the
  bound, and what follows it.
\<close>

definition run :: "JSONRPCServer \<Rightarrow> uint64 \<Rightarrow> int64 \<Rightarrow> (uint64 \<times> ID) list" where
  "run j start e = takeWhile (\<lambda>kv. \<not> exceeds j e kv) (seek (idsByHeight j) start)"

definition beyond :: "JSONRPCServer \<Rightarrow> uint64 \<Rightarrow> int64 \<Rightarrow> (uint64 \<times> ID) list" where
  "beyond j start e = dropWhile (\<lambda>kv. \<not> exceeds j e kv) (seek (idsByHeight j) start)"

definition info :: "uint64 \<times> ID \<Rightarrow> BlockInfo" where
  "info kv = \<lparr>BlockInfo.BlockId = snd kv\<rparr>"

text \<open>
  What the scan of the code collects for a start height and an end bound: the run, then
  the first entry beyond it when there is one, the inconsistent entries left out; \<open>next\<close>
  is that first entry beyond the run.
\<close>

definition window_blocks :: "JSONRPCServer \<Rightarrow> uint64 \<Rightarrow> int64 \<Rightarrow> BlockInfo list" where
  "window_blocks j start e =
     map info (filter (consistent j) (run j start e @ take 1 (beyond j start e)))"

definition window_next :: "JSONRPCServer \<Rightarrow> uint64 \<Rightarrow> int64 \<Rightarrow> BlockInfo" where
  "window_next j start e =
     (case beyond j start e of [] \<Rightarrow> \<lparr>BlockInfo.BlockId = Empty\<rparr> | kv # _ \<Rightarrow> info kv)"

definition is_window ::
  "JSONRPCServer \<Rightarrow> uint64 \<Rightarrow> int64 \<Rightarrow> BlockHeadersResponse frame \<Rightarrow> bool" where
  "is_window j start e f =
     (outcome f = Returned None \<and> From (computed f) = start
      \<and> Blocks (computed f) = window_blocks j start e
      \<and> Next (computed f) = window_next j start e)"

text \<open>
  The transactions of a block that qualify for the partition of namespace \<open>ns\<close>, in block
  order, \<open>i\<close> being the position of the first one: execution succeeded, the action is a
  sequencer message, and the hex encoding of its channel identifier is \<open>ns\<close>.
\<close>

definition qualifying ::
  "nat \<Rightarrow> Transaction list \<Rightarrow> Result list \<Rightarrow> string \<Rightarrow> SEQTransaction list" where
  "qualifying i txs rs ns =
     concat (map (\<lambda>(n, tx).
        if Success (rs ! n) then
          (case Action tx of
             SequencerMsg c d \<Rightarrow>
               if EncodeToString c = ns
               then [\<lparr>SEQTransaction.Namespace = ns, Tx_id = tx_id tx, Transaction = d,
                      Index = of_nat n\<rparr>]
               else []
           | OtherAction _ \<Rightarrow> [])
        else []) (enumerate i txs))"

definition partition_of ::
  "Transaction list \<Rightarrow> Result list \<Rightarrow> (string \<rightharpoonup> SEQTransaction list)" where
  "partition_of txs rs =
     (\<lambda>ns. if qualifying 0 txs rs ns = [] then None else Some (qualifying 0 txs rs ns))"

section \<open>Test fixtures\<close>

text \<open>
  A codec over a finite table of blocks: packing gives the serialised form the block
  carries, unpacking finds the block with that serialised form and returns its header,
  its execution results and its identifier, or nil pointers and an error.
\<close>

definition pack_table :: "StatelessBlock \<Rightarrow> error + byte list" where
  "pack_table blk = Inr (bytes blk)"

fun unpack_table :: "(StatelessBlock \<times> Result list \<times> ID) list \<Rightarrow> byte list \<Rightarrow> Unpacked" where
  "unpack_table [] msg =
     \<lparr>block = None, results = [], id_ptr = None, err = Some (Error ''unmarshal'')\<rparr>"
| "unpack_table ((blk, rs, i) # tbl) msg =
     (if bytes blk = msg
      then \<lparr>block = Some (StatefulBlock.truncate blk), results = rs, id_ptr = Some i, err = None\<rparr>
      else unpack_table tbl msg)"

text \<open>Heights 0, 1, 2 with timestamps 100, 150, 220 and identifiers 10, 11, 12.\<close>

definition blkA0 :: StatelessBlock where
  "blkA0 = \<lparr>StatefulBlock.Prnt = 9, Tmstmp = 100, Hght = 0, Txs = [], StateRoot = 0, bytes = [0]\<rparr>"

definition blkA1 :: StatelessBlock where
  "blkA1 = \<lparr>StatefulBlock.Prnt = 10, Tmstmp = 150, Hght = 1, Txs = [], StateRoot = 0, bytes = [1]\<rparr>"

definition blkA2 :: StatelessBlock where
  "blkA2 = \<lparr>StatefulBlock.Prnt = 11, Tmstmp = 220, Hght = 2, Txs = [], StateRoot = 0, bytes = [2]\<rparr>"

definition tableA :: "(StatelessBlock \<times> Result list \<times> ID) list" where
  "tableA = [(blkA0, [], 10), (blkA1, [], 11), (blkA2, [], 12)]"

definition serverA :: JSONRPCServer where
  "serverA =
     fst (AcceptBlock pack_table (unpack_table tableA)
       (fst (AcceptBlock pack_table (unpack_table tableA)
         (fst (AcceptBlock pack_table (unpack_table tableA) NewJSONRPCServer blkA0)) blkA1)) blkA2)"

text \<open>The caller's response object before a call: the zero value of its type.\<close>

definition zeroHeaders :: BlockHeadersResponse where
  "zeroHeaders = \<lparr>From = 0, Blocks = [], Prev = \<lparr>BlockInfo.BlockId = Empty\<rparr>,
                  Next = \<lparr>BlockInfo.BlockId = Empty\<rparr>\<rparr>"

definition zeroTxs :: TransactionResponse where
  "zeroTxs = \<lparr>TransactionResponse.Txs = [], TransactionResponse.BlockId = Empty\<rparr>"

definition zeroSEQTxs :: SEQTransactionResponse where
  "zeroSEQTxs = \<lparr>SEQTransactionResponse.Txs = [], SEQTransactionResponse.BlockId = Empty\<rparr>"

text \<open>
  A block of height 3 with five transactions: two successful sequencer messages for the
  channel \<open>A\<close> (byte 0x41), one for the channel \<open>B\<close> (byte 0x42), a failed one for \<open>A\<close>, and a
  successful action of another kind.
\<close>

definition txsC :: "Transaction list" where
  "txsC = [\<lparr>tx_id = 101, Action = SequencerMsg [0x41] [1]\<rparr>,
           \<lparr>tx_id = 102, Action = SequencerMsg [0x41] [2]\<rparr>,
           \<lparr>tx_id = 103, Action = SequencerMsg [0x42] [3]\<rparr>,
           \<lparr>tx_id = 104, Action = SequencerMsg [0x41] [4]\<rparr>,
           \<lparr>tx_id = 105, Action = OtherAction 0\<rparr>]"

definition resultsC :: "Result list" where
  "resultsC = [\<lparr>Success = True\<rparr>, \<lparr>Success = True\<rparr>, \<lparr>Success = True\<rparr>,
               \<lparr>Success = False\<rparr>, \<lparr>Success = True\<rparr>]"

definition blkC :: StatelessBlock where
  "blkC = \<lparr>StatefulBlock.Prnt = 12, Tmstmp = 300, Hght = 3, Txs = txsC, StateRoot = 0,
           bytes = [3]\<rparr>"

definition tableC :: "(StatelessBlock \<times> Result list \<times> ID) list" where
  "tableC = [(blkC, resultsC, 13)]"

text \<open>Two blocks with the same timestamp.\<close>

definition blkB0 :: StatelessBlock where
  "blkB0 = \<lparr>StatefulBlock.Prnt = 19, Tmstmp = 100, Hght = 0, Txs = [], StateRoot = 0, bytes = [0]\<rparr>"

definition blkB1 :: StatelessBlock where
  "blkB1 = \<lparr>StatefulBlock.Prnt = 20, Tmstmp = 100, Hght = 1, Txs = [], StateRoot = 0, bytes = [1]\<rparr>"

definition tableB :: "(StatelessBlock \<times> Result list \<times> ID) list" where
  "tableB = [(blkB0, [], 20), (blkB1, [], 21)]"

text \<open>A block at the greatest height a \<open>uint64\<close> can hold, and the server that accepted it.\<close>

definition blkMax :: StatelessBlock where
  "blkMax = \<lparr>StatefulBlock.Prnt = 29, Tmstmp = 100, Hght = 18446744073709551615, Txs = [],
             StateRoot = 0, bytes = [255]\<rparr>"

definition tableMax :: "(StatelessBlock \<times> Result list \<times> ID) list" where
  "tableMax = [(blkMax, [], 30)]"

definition serverMax :: JSONRPCServer where
  "serverMax = fst (AcceptBlock pack_table (unpack_table tableMax) NewJSONRPCServer blkMax)"

text \<open>
  A parser of identifiers over a finite table of textual forms; every other string is
  malformed. \<open>emptyIDText\<close> is the textual form of \<^verbatim>\<open>ids.Empty\<close>.
\<close>

fun FromString_table :: "(string \<times> ID) list \<Rightarrow> string \<Rightarrow> error + ID" where
  "FromString_table [] s = Inl (Error ''invalid input'')"
| "FromString_table ((t, i) # tbl) s = (if s = t then Inr i else FromString_table tbl s)"

definition emptyIDText :: string where
  "emptyIDText = ''11111111111111111111111111111111LpoYY''"

definition textsA :: "(string \<times> ID) list" where
  "textsA = [(emptyIDText, Empty), (''blkA0'', 10), (''blkA1'', 11), (''blkA2'', 12)]"

text \<open>The servers that accepted the two blocks with equal timestamps, one after the other.\<close>

definition serverB0 :: JSONRPCServer where
  "serverB0 = fst (AcceptBlock pack_table (unpack_table tableB) NewJSONRPCServer blkB0)"

definition serverB :: JSONRPCServer where
  "serverB = fst (AcceptBlock pack_table (unpack_table tableB) serverB0 blkB1)"

text \<open>The server that accepted the block of height 3, and the textual form of its identifier.\<close>

definition serverC :: JSONRPCServer where
  "serverC = fst (AcceptBlock pack_table (unpack_table tableC) NewJSONRPCServer blkC)"

definition textsC :: "(string \<times> ID) list" where
  "textsC = [(''blkC'', 13)]"

section \<open>The ordered map\<close>

lemma btree_Get_Set: "btree_Get (btree_Set k v m) = (btree_Get m)(k \<mapsto> v)"
  unfolding btree_Get_def
  by (induction m) (auto simp: fun_upd_twist)

lemma set_btree_Set: "set (btree_Set k v m) \<subseteq> insert (k, v) (set m)"
  by (induction m) (auto split: if_splits)

lemma sorted_btree_Set:
  "sorted_wrt (<) (map fst m) \<Longrightarrow> sorted_wrt (<) (map fst (btree_Set k v m))"
proof (induction m)
  case Nil
  then show ?case by simp
next
  case (Cons a m)
  obtain k' v' where a: "a = (k', v')" by (cases a)
  have "\<forall>x \<in> set (btree_Set k v m). k' < fst x" if "k' < k"
    using Cons.prems that set_btree_Set [of k v m] by (auto simp: a)
  then show ?case using Cons by (auto simp: a)
qed

lemma seek_sorted:
  "sorted_wrt (<) (map fst m) \<Longrightarrow> sorted_wrt (<) (map fst (seek m p))"
  unfolding seek_def
  by (induction m) auto

lemma seek_set:
  "sorted_wrt (<) (map fst m) \<Longrightarrow> set (seek m p) = {kv \<in> set m. p \<le> fst kv}"
  unfolding seek_def
proof (induction m)
  case Nil
  then show ?case by simp
next
  case (Cons a m)
  then show ?case by (cases a) (auto simp: not_less)
qed

lemma map_of_sorted_mem:
  fixes m :: "('k::linorder \<times> 'v) list"
  shows "sorted_wrt (<) (map fst m) \<Longrightarrow> (k, v) \<in> set m \<longleftrightarrow> btree_Get m k = Some v"
  unfolding btree_Get_def
  using strict_sorted_iff [of "map fst m"] by simp

section \<open>The scan of the height index\<close>

text \<open>
  When every entry it meets has a header, the scan never panics: it appends the
  consistent entries up to and including the first one that exceeds the bound, and stops
  there.
\<close>

lemma iterate_visit:
  "list_all (has_header j) es \<Longrightarrow>
   iterate es (visit j e) (acc, nx) =
     Some (acc @ map info (filter (consistent j)
                    (takeWhile (\<lambda>kv. \<not> exceeds j e kv) es
                     @ take 1 (dropWhile (\<lambda>kv. \<not> exceeds j e kv) es))),
           case dropWhile (\<lambda>kv. \<not> exceeds j e kv) es of [] \<Rightarrow> nx | kv # _ \<Rightarrow> info kv)"
proof (induction es arbitrary: acc)
  case Nil
  then show ?case by simp
next
  case (Cons a es)
  obtain k i where a: "a = (k, i)" by (cases a)
  from Cons.prems obtain blk where h: "headers j i = Some (Some blk)"
    by (auto simp: a has_header_def split: option.splits)
  from Cons.prems have rest: "list_all (has_header j) es" by simp
  show ?case
    by (simp add: a h exceeds_def consistent_def info_def Cons.IH [OF rest])
qed

lemma seek_headers:
  "list_all (has_header j) m \<Longrightarrow> list_all (has_header j) (seek m p)"
  unfolding seek_def list_all_iff by (auto dest: set_dropWhileD)

lemma ascend_visit:
  assumes "indexed j"
  shows "btree_Ascend (idsByHeight j) start (visit j e) ([], \<lparr>BlockInfo.BlockId = Empty\<rparr>)
           = Some (window_blocks j start e, window_next j start e)"
proof -
  have "list_all (has_header j) (seek (idsByHeight j) start)"
    using assms by (simp add: indexed_def seek_headers)
  then show ?thesis
    unfolding btree_Ascend_def window_blocks_def window_next_def run_def beyond_def
    by (simp add: iterate_visit)
qed

lemma getBlockHeadersByHeight_window:
  "indexed j \<Longrightarrow>
   is_window j (Height args) (GetBlockHeadersByHeightArgs.End args)
     (getBlockHeadersByHeight j args st reply)"
  unfolding getBlockHeadersByHeight_def
  by (simp add: ascend_visit is_window_def computed_def address_of_def Let_def)

text \<open>The other two header queries are the query by height at the start height they derive.\<close>

lemma getBlockHeadersID_eq:
  "GetBlockHeadersIDArgs.ID args \<noteq> [] \<Longrightarrow>
   FromString (GetBlockHeadersIDArgs.ID args) = Inr i \<Longrightarrow>
   headers j i = Some (Some b) \<Longrightarrow>
   getBlockHeadersID FromString j args st reply =
     getBlockHeadersByHeight j
       \<lparr>Height = StatefulBlock.Hght b, End = GetBlockHeadersIDArgs.End args\<rparr> st reply"
  unfolding getBlockHeadersID_def getBlockHeadersByHeight_def
  by (simp add: Let_def cong: option.case_cong)

lemma getBlockHeadersByStart_eq:
  "getBlockHeadersByStart j args st reply =
     getBlockHeadersByHeight j
       \<lparr>Height = (case blocks j (Start args) of Some heightFound \<Rightarrow> heightFound | None \<Rightarrow> 0),
        End = GetBlockHeadersByStartArgs.End args\<rparr> st reply"
  unfolding getBlockHeadersByStart_def getBlockHeadersByHeight_def
  by (simp add: Let_def cong: option.case_cong)

section \<open>Ingestion\<close>

lemma AcceptBlock_success:
  assumes "AcceptBlock P U j blk = (j', Returned None)"
  obtains msg i b seq where
    "P blk = Inr msg" "id_ptr (U msg) = Some i" "block (U msg) = Some b"
    "seq_txs_loop 0 (StatefulBlock.Txs blk) (results (U msg)) Map.empty = Some seq"
    "headers j' = (headers j)(i \<mapsto> Some b)"
    "idsByHeight j' = btree_Set (StatefulBlock.Hght b) i (idsByHeight j)"
    "blocks j' = (blocks j)(StatefulBlock.Tmstmp b \<mapsto> StatefulBlock.Hght b)"
    "map_option SequencerBlock.Txs (blocksWithValidTxs j' i) = Some seq"
  using assms unfolding AcceptBlock_def
  by (auto simp: Let_def split: sum.splits option.splits)

lemma AcceptBlock_total_headers:
  assumes inv: "\<forall>h i. btree_Get (idsByHeight j) h = Some i \<longrightarrow> (\<exists>b. headers j i = Some (Some b))"
    and ok: "AcceptBlock P U j blk = (j', Returned None)"
  shows "\<forall>h i. btree_Get (idsByHeight j') h = Some i \<longrightarrow> (\<exists>b. headers j' i = Some (Some b))"
proof -
  from ok obtain i b where
    h: "headers j' = (headers j)(i \<mapsto> Some b)" and
    x: "idsByHeight j' = btree_Set (StatefulBlock.Hght b) i (idsByHeight j)"
    by (rule AcceptBlock_success)
  show ?thesis
    using inv by (auto simp: h x btree_Get_Set)
qed

lemma AcceptBlocks_total_headers:
  "\<forall>h i. btree_Get (idsByHeight j) h = Some i \<longrightarrow> (\<exists>b. headers j i = Some (Some b)) \<Longrightarrow>
   AcceptBlocks P U j blks = Some j' \<Longrightarrow>
   \<forall>h i. btree_Get (idsByHeight j') h = Some i \<longrightarrow> (\<exists>b. headers j' i = Some (Some b))"
proof (induction blks arbitrary: j)
  case Nil
  then show ?case by simp
next
  case (Cons blk blks)
  from Cons.prems(2) obtain j1 where
    1: "AcceptBlock P U j blk = (j1, Returned None)" and 2: "AcceptBlocks P U j1 blks = Some j'"
    by (auto split: prod.splits outcome.splits option.splits)
  show ?case
    by (rule Cons.IH [OF AcceptBlock_total_headers [OF Cons.prems(1) 1] 2])
qed

text \<open>Accepting a block keeps an indexed state indexed, and the new server is indexed.\<close>

lemma AcceptBlock_indexed:
  assumes "indexed j" and ok: "AcceptBlock P U j blk = (j', Returned None)"
  shows "indexed j'"
proof -
  from ok obtain i b where
    h: "headers j' = (headers j)(i \<mapsto> Some b)" and
    x: "idsByHeight j' = btree_Set (StatefulBlock.Hght b) i (idsByHeight j)"
    by (rule AcceptBlock_success)
  have "has_header j' kv" if "kv \<in> set (btree_Set (StatefulBlock.Hght b) i (idsByHeight j))" for kv
  proof -
    from that set_btree_Set have "kv = (StatefulBlock.Hght b, i) \<or> kv \<in> set (idsByHeight j)"
      by fastforce
    then show ?thesis
      using assms(1) by (auto simp: has_header_def h indexed_def list_all_iff split: option.splits)
  qed
  then show ?thesis
    using assms(1) by (simp add: indexed_def x sorted_btree_Set list_all_iff)
qed

lemma indexed_New: "indexed NewJSONRPCServer"
  by (simp add: indexed_def NewJSONRPCServer_def)

lemma AcceptBlocks_indexed:
  "indexed j \<Longrightarrow> AcceptBlocks P U j blks = Some j' \<Longrightarrow> indexed j'"
proof (induction blks arbitrary: j)
  case Nil
  then show ?case by simp
next
  case (Cons blk blks)
  from Cons.prems(2) obtain j1 where
    1: "AcceptBlock P U j blk = (j1, Returned None)" and 2: "AcceptBlocks P U j1 blks = Some j'"
    by (auto split: prod.splits outcome.splits option.splits)
  show ?case
    by (rule Cons.IH [OF AcceptBlock_indexed [OF Cons.prems(1) 1] 2])
qed

section \<open>The fixtures, evaluated\<close>

lemmas fixture_defs = AcceptBlock_def pack_table_def NewJSONRPCServer_def
  StatefulBlock.truncate_def Let_def btree_Get_def

lemma serverA_run:
  "AcceptBlocks pack_table (unpack_table tableA) NewJSONRPCServer [blkA0, blkA1, blkA2]
     = Some serverA"
  by (simp add: fixture_defs serverA_def tableA_def blkA0_def blkA1_def blkA2_def)

lemma serverA_index: "idsByHeight serverA = [(0, 10), (1, 11), (2, 12)]"
  by (simp add: fixture_defs serverA_def tableA_def blkA0_def blkA1_def blkA2_def)

lemma serverA_headers:
  "headers serverA =
     [10 \<mapsto> Some (StatefulBlock.truncate blkA0), 11 \<mapsto> Some (StatefulBlock.truncate blkA1),
      12 \<mapsto> Some (StatefulBlock.truncate blkA2)]"
  by (simp add: fixture_defs serverA_def tableA_def blkA0_def blkA1_def blkA2_def)

lemma serverA_indexed: "indexed serverA"
  by (simp add: indexed_def serverA_index serverA_headers has_header_def)

lemma serverA_blocks: "blocks serverA = [100 \<mapsto> 0, 150 \<mapsto> 1, 220 \<mapsto> 2]"
  by (simp add: fixture_defs serverA_def tableA_def blkA0_def blkA1_def blkA2_def)

lemmas serverA_simps = serverA_index serverA_headers serverA_blocks
  StatefulBlock.truncate_def blkA0_def blkA1_def blkA2_def

lemma serverA_run_0_180: "run serverA 0 180 = [(0, 10), (1, 11)]"
  by (simp add: run_def seek_def exceeds_def serverA_simps)

lemma serverA_beyond_0_180: "beyond serverA 0 180 = [(2, 12)]"
  by (simp add: beyond_def seek_def exceeds_def serverA_simps)

lemma serverA_run_1_180: "run serverA 1 180 = [(1, 11)]"
  by (simp add: run_def seek_def exceeds_def serverA_simps)

lemma serverA_beyond_1_180: "beyond serverA 1 180 = [(2, 12)]"
  by (simp add: beyond_def seek_def exceeds_def serverA_simps)

lemma serverA_window_0_180:
  "window_blocks serverA 0 180
     = [\<lparr>BlockInfo.BlockId = 10\<rparr>, \<lparr>BlockInfo.BlockId = 11\<rparr>, \<lparr>BlockInfo.BlockId = 12\<rparr>]"
  by (simp add: window_blocks_def serverA_run_0_180 serverA_beyond_0_180
      consistent_def info_def serverA_simps)

lemma serverA_window_1_180:
  "window_blocks serverA 1 180 = [\<lparr>BlockInfo.BlockId = 11\<rparr>, \<lparr>BlockInfo.BlockId = 12\<rparr>]"
  by (simp add: window_blocks_def serverA_run_1_180 serverA_beyond_1_180
      consistent_def info_def serverA_simps)

lemma serverB0_step:
  "AcceptBlock pack_table (unpack_table tableB) NewJSONRPCServer blkB0 = (serverB0, Returned None)"
  by (simp add: serverB0_def fixture_defs tableB_def blkB0_def blkB1_def)

lemma serverB_step:
  "AcceptBlock pack_table (unpack_table tableB) serverB0 blkB1 = (serverB, Returned None)"
  by (simp add: serverB_def serverB0_def fixture_defs tableB_def blkB0_def blkB1_def)

lemma serverB0_blocks: "blocks serverB0 = [100 \<mapsto> 0]"
  by (simp add: serverB0_def fixture_defs tableB_def blkB0_def blkB1_def)

lemma serverB_index: "idsByHeight serverB = [(0, 20), (1, 21)]"
  by (simp add: serverB_def serverB0_def fixture_defs tableB_def blkB0_def blkB1_def)

lemma serverB_headers:
  "headers serverB =
     [20 \<mapsto> Some (StatefulBlock.truncate blkB0), 21 \<mapsto> Some (StatefulBlock.truncate blkB1)]"
  by (simp add: serverB_def serverB0_def fixture_defs tableB_def blkB0_def blkB1_def)

lemma serverC_step:
  "AcceptBlock pack_table (unpack_table tableC) NewJSONRPCServer blkC = (serverC, Returned None)"
  by (simp add: serverC_def fixture_defs tableC_def blkC_def txsC_def resultsC_def hextable_def)

lemma serverC_headers: "headers serverC = [13 \<mapsto> Some (StatefulBlock.truncate blkC)]"
  by (simp add: serverC_def fixture_defs tableC_def blkC_def txsC_def resultsC_def hextable_def)

lemma serverC_partition_A:
  "map_option (\<lambda>sb. SequencerBlock.Txs sb ''41'') (blocksWithValidTxs serverC 13)
     = Some (Some [\<lparr>SEQTransaction.Namespace = ''41'', Tx_id = 101, Transaction = [1], Index = 0\<rparr>,
                   \<lparr>SEQTransaction.Namespace = ''41'', Tx_id = 102, Transaction = [2], Index = 1\<rparr>])"
  by (simp add: serverC_def fixture_defs tableC_def blkC_def txsC_def resultsC_def hextable_def)

lemma serverMax_step:
  "AcceptBlock pack_table (unpack_table tableMax) NewJSONRPCServer blkMax
     = (serverMax, Returned None)"
  by (simp add: serverMax_def fixture_defs tableMax_def blkMax_def)

lemma serverMax_index: "idsByHeight serverMax = [(18446744073709551615, 30)]"
  by (simp add: serverMax_def fixture_defs tableMax_def blkMax_def)

lemma partition_C:
  "partition_of txsC resultsC ''41'' =
     Some [\<lparr>SEQTransaction.Namespace = ''41'', Tx_id = 101, Transaction = [1], Index = 0\<rparr>,
           \<lparr>SEQTransaction.Namespace = ''41'', Tx_id = 102, Transaction = [2], Index = 1\<rparr>]"
  "partition_of txsC resultsC ''42'' =
     Some [\<lparr>SEQTransaction.Namespace = ''42'', Tx_id = 103, Transaction = [3], Index = 2\<rparr>]"
  "partition_of txsC resultsC ''43'' = None"
  by (simp_all add: partition_of_def qualifying_def txsC_def resultsC_def enumerate_eq_zip
      upt_rec hextable_def)

section \<open>The loop over the transactions\<close>

lemma qualifying_Nil: "qualifying i [] rs ns = []"
  by (simp add: qualifying_def)

lemma qualifying_Cons:
  "qualifying i (tx # txs) rs ns =
     (if Success (rs ! i) then
        (case Action tx of
           SequencerMsg c d \<Rightarrow>
             if EncodeToString c = ns
             then [\<lparr>SEQTransaction.Namespace = ns, Tx_id = tx_id tx, Transaction = d,
                    Index = of_nat i\<rparr>]
             else []
         | OtherAction _ \<Rightarrow> [])
      else []) @ qualifying (Suc i) txs rs ns"
  by (simp add: qualifying_def)

text \<open>
  With a result for every remaining transaction the loop does not panic, and it extends
  the list of each namespace by the qualifying transactions of that namespace.
\<close>

lemma seq_txs_loop_spec:
  "i + length txs \<le> length rs \<Longrightarrow>
   seq_txs_loop i txs rs m =
     Some (\<lambda>ns. if qualifying i txs rs ns = [] then m ns
                else Some ((case m ns of None \<Rightarrow> [] | Some l \<Rightarrow> l) @ qualifying i txs rs ns))"
proof (induction txs arbitrary: i m)
  case Nil
  then show ?case by (simp add: qualifying_Nil)
next
  case (Cons tx txs)
  from Cons.prems have i: "i < length rs" and r: "Suc i + length txs \<le> length rs" by simp_all
  note IH = Cons.IH [OF r]
  show ?case
  proof (cases "Success (rs ! i)")
    case False
    then show ?thesis by (auto simp: i IH qualifying_Cons fun_eq_iff)
  next
    case True
    show ?thesis
    proof (cases "Action tx")
      case (OtherAction n)
      then show ?thesis by (auto simp: i True IH qualifying_Cons fun_eq_iff)
    next
      case (SequencerMsg c d)
      then show ?thesis
        by (auto simp: i True IH qualifying_Cons Let_def fun_eq_iff split: option.splits)
    qed
  qed
qed

section \<open>Further facts about the handlers\<close>

lemma never_an_error:
  "outcome (getBlockHeadersByHeight j args st reply) \<noteq> Returned (Some e)"
  unfolding getBlockHeadersByHeight_def
  by (simp add: Let_def split: option.splits)

text \<open>The object the caller passed is the same after the call, whatever the call computed.\<close>

lemma caller_object_unchanged:
  "reply < length st \<Longrightarrow> visible (getBlockHeadersByHeight j args st reply) reply = st ! reply"
  unfolding getBlockHeadersByHeight_def
  by (simp add: Let_def visible_def address_of_def nth_append split: option.splits)

text \<open>In an indexed state \<open>prev\<close> is what the height index holds at the start height minus one,
  the subtraction being that of \<open>uint64\<close>.\<close>

lemma prev_lookup:
  "indexed j \<Longrightarrow>
   Prev (computed (getBlockHeadersByHeight j args st reply)) =
     (case btree_Get (idsByHeight j) (Height args - 1) of
        Some prevBlkId \<Rightarrow> \<lparr>BlockInfo.BlockId = prevBlkId\<rparr>
      | None \<Rightarrow> \<lparr>BlockInfo.BlockId = Empty\<rparr>)"
  unfolding getBlockHeadersByHeight_def
  by (simp add: ascend_visit computed_def address_of_def Let_def)

text \<open>With a non-empty identifier the two transaction queries return nil at once.\<close>

lemma getBlockTransactions_nonempty:
  "GetBlockTransactionsArgs.ID args \<noteq> [] \<Longrightarrow>
   getBlockTransactions FromString j args st reply
     = \<lparr>store = st, reply_var = reply, outcome = Returned None\<rparr>"
  by (simp add: getBlockTransactions_def)

lemma getBlockTransactionsByNamespace_nonempty:
  "GetBlockTransactionsByNamespaceArgs.ID args \<noteq> [] \<Longrightarrow>
   getBlockTransactionsByNamespace FromString j args st reply
     = \<lparr>store = st, reply_var = reply, outcome = Returned None\<rparr>"
  by (simp add: getBlockTransactionsByNamespace_def)

lemma AcceptBlock_time_index:
  "AcceptBlock P U j blk = (j', Returned None) \<Longrightarrow> P blk = Inr msg \<Longrightarrow>
   block (U msg) = Some b \<Longrightarrow>
   blocks j' = (blocks j)(StatefulBlock.Tmstmp b \<mapsto> StatefulBlock.Hght b)"
  by (erule AcceptBlock_success) simp

lemma pack_error_surfaced:
  "P blk = Inl e \<Longrightarrow> AcceptBlock P U j blk = (j, Returned (Some e))"
  by (simp add: AcceptBlock_def)

section \<open>The claims\<close>

text \<open>
  C1 says that the first visited block whose timestamp exceeds the end bound is left out of
  \<open>blocks\<close> and only populates \<open>next\<close>, so that \<open>blocks\<close> is exactly the maximal ascending
  run of indexed heights from the start height whose timestamps are within the bound. With
  heights 0, 1, 2 at timestamps 100, 150, 220, the query by height 0 with end bound 180 has
  the run of heights 0 and 1, and the block of height 2 is the first beyond it; the
  iterator appends a block before it compares the timestamp with the bound, so the
  response holds all three blocks, and the block of height 2 is both the last element of
  \<open>blocks\<close> and \<open>next\<close>.
\<close>

theorem boundary_block_in_blocks:
  "run serverA 0 180 = [(0, 10), (1, 11)]
   \<and> beyond serverA 0 180 = [(2, 12)]
   \<and> Blocks (computed (getBlockHeadersByHeight serverA \<lparr>Height = 0, End = 180\<rparr> [zeroHeaders] 0))
       = [\<lparr>BlockInfo.BlockId = 10\<rparr>, \<lparr>BlockInfo.BlockId = 11\<rparr>, \<lparr>BlockInfo.BlockId = 12\<rparr>]
   \<and> Next (computed (getBlockHeadersByHeight serverA \<lparr>Height = 0, End = 180\<rparr> [zeroHeaders] 0))
       = \<lparr>BlockInfo.BlockId = 12\<rparr>
   \<and> Blocks (computed (getBlockHeadersByHeight serverA \<lparr>Height = 0, End = 180\<rparr> [zeroHeaders] 0))
       \<noteq> map info (run serverA 0 180)"
  by (simp add: serverA_run_0_180 serverA_beyond_0_180 info_def getBlockHeadersByHeight_def
      btree_Ascend_def seek_def computed_def address_of_def Let_def btree_Get_def serverA_simps)

text \<open>
  C2 says that the response object the caller sees after the query by height holds the
  computed result. At heights 0, 1, 2, the query by height 1 with end bound 180 builds the
  response \<open>from = 1\<close>, \<open>blocks = [11, 12]\<close>, \<open>prev = 10\<close>, \<open>next = 12\<close> in a fresh cell and
  returns nil, and the caller's object is still the zero value, with \<open>from = 0\<close>.
\<close>

theorem reply_not_written:
  "computed (getBlockHeadersByHeight serverA \<lparr>Height = 1, End = 180\<rparr> [zeroHeaders] 0)
     = \<lparr>From = 1, Blocks = [\<lparr>BlockInfo.BlockId = 11\<rparr>, \<lparr>BlockInfo.BlockId = 12\<rparr>],
        Prev = \<lparr>BlockInfo.BlockId = 10\<rparr>, Next = \<lparr>BlockInfo.BlockId = 12\<rparr>\<rparr>
   \<and> outcome (getBlockHeadersByHeight serverA \<lparr>Height = 1, End = 180\<rparr> [zeroHeaders] 0)
       = Returned None
   \<and> visible (getBlockHeadersByHeight serverA \<lparr>Height = 1, End = 180\<rparr> [zeroHeaders] 0) 0
       = zeroHeaders
   \<and> From (visible (getBlockHeadersByHeight serverA \<lparr>Height = 1, End = 180\<rparr> [zeroHeaders] 0) 0)
       = 0"
  by (simp add: getBlockHeadersByHeight_def btree_Ascend_def seek_def computed_def visible_def
      address_of_def Let_def btree_Get_def serverA_simps zeroHeaders_def)

text \<open>
  C3 says that the two transaction queries return the transactions of a stored block. The
  block with identifier 13 is stored with its five transactions and its partition, its
  textual identifier is non-empty and well-formed, and both queries return nil at once,
  building no response and leaving the caller's object as it was.
\<close>

theorem transactions_inverted_guard:
  "FromString_table textsC ''blkC'' = Inr 13
   \<and> headers serverC 13 = Some (Some (StatefulBlock.truncate blkC))
   \<and> StatefulBlock.Txs (StatefulBlock.truncate blkC) = txsC
   \<and> getBlockTransactions (FromString_table textsC) serverC
        \<lparr>GetBlockTransactionsArgs.ID = ''blkC''\<rparr> [zeroTxs] 0
       = \<lparr>store = [zeroTxs], reply_var = 0, outcome = Returned None\<rparr>
   \<and> map_option (\<lambda>sb. SequencerBlock.Txs sb ''41'') (blocksWithValidTxs serverC 13)
       = Some (Some [\<lparr>SEQTransaction.Namespace = ''41'', Tx_id = 101, Transaction = [1], Index = 0\<rparr>,
                     \<lparr>SEQTransaction.Namespace = ''41'', Tx_id = 102, Transaction = [2], Index = 1\<rparr>])
   \<and> getBlockTransactionsByNamespace (FromString_table textsC) serverC
        \<lparr>GetBlockTransactionsByNamespaceArgs.ID = ''blkC'', Namespace = ''41''\<rparr> [zeroSEQTxs] 0
       = \<lparr>store = [zeroSEQTxs], reply_var = 0, outcome = Returned None\<rparr>"
  using serverC_partition_A
  by (simp add: textsC_def serverC_headers getBlockTransactions_def
      getBlockTransactionsByNamespace_def StatefulBlock.truncate_def blkC_def)

text \<open>
  C4 says that the query by identifier returns the default response and no error when the
  identifier is empty or is well-formed and not stored. With the empty identifier the call
  returns nil and touches nothing. With the textual form of the empty identifier, which
  is well-formed and under which nothing is stored, the call panics on the nil header.
\<close>

theorem absent_identifier_panics:
  "getBlockHeadersID (FromString_table textsA) serverA
        \<lparr>GetBlockHeadersIDArgs.ID = [], End = 180\<rparr> [zeroHeaders] 0
       = \<lparr>store = [zeroHeaders], reply_var = 0, outcome = Returned None\<rparr>
   \<and> FromString_table textsA emptyIDText = Inr Empty
   \<and> headers serverA Empty = None
   \<and> getBlockHeadersID (FromString_table textsA) serverA
        \<lparr>GetBlockHeadersIDArgs.ID = emptyIDText, End = 180\<rparr> [zeroHeaders] 0
       = \<lparr>store = [zeroHeaders], reply_var = 0, outcome = Panicked\<rparr>"
  by (simp add: textsA_def emptyIDText_def Empty_def serverA_headers getBlockHeadersID_def)

text \<open>
  C5 says that a failure of the packing or of the unpacking step is returned to the caller
  with the indices untouched. When packing succeeds and unpacking fails, returning nil
  pointers and an error, \<open>AcceptBlock\<close> does not return that error: it panics on the nil
  identifier.
\<close>

theorem unpack_error_not_surfaced:
  "pack_table blkC = Inr [3]
   \<and> unpack_table [] [3]
       = \<lparr>block = None, results = [], id_ptr = None, err = Some (Error ''unmarshal'')\<rparr>
   \<and> AcceptBlock pack_table (unpack_table []) serverA blkC = (serverA, Panicked)"
  by (simp add: AcceptBlock_def pack_table_def blkC_def)

text \<open>
  C6. When a block is accepted with one execution result per transaction, the partition
  stored under its identifier maps each namespace to the transactions that succeeded,
  carry a sequencer message and whose channel identifier has that namespace as its hex
  encoding, in block order, each with its identifier, its payload and its position; a
  namespace without such a transaction has no entry, so no other transaction is stored.
\<close>

theorem partition_exact:
  assumes "PackBlockMessage blk = Inr msg"
    and "id_ptr (UnpackBlockMessage msg) = Some i"
    and "block (UnpackBlockMessage msg) = Some b"
    and "length (results (UnpackBlockMessage msg)) = length (StatefulBlock.Txs blk)"
  shows "snd (AcceptBlock PackBlockMessage UnpackBlockMessage j blk) = Returned None
       \<and> map_option SequencerBlock.Txs
            (blocksWithValidTxs (fst (AcceptBlock PackBlockMessage UnpackBlockMessage j blk)) i)
          = Some (partition_of (StatefulBlock.Txs blk) (results (UnpackBlockMessage msg)))"
proof -
  have "seq_txs_loop 0 (StatefulBlock.Txs blk) (results (UnpackBlockMessage msg)) Map.empty
          = Some (partition_of (StatefulBlock.Txs blk) (results (UnpackBlockMessage msg)))"
    using assms(4) by (auto simp: seq_txs_loop_spec partition_of_def fun_eq_iff)
  then show ?thesis
    unfolding AcceptBlock_def using assms(1-3) by (simp add: Let_def)
qed

theorem partition_exact_witness:
  "pack_table blkC = Inr [3]
   \<and> id_ptr (unpack_table tableC [3]) = Some 13
   \<and> block (unpack_table tableC [3]) = Some (StatefulBlock.truncate blkC)
   \<and> length (results (unpack_table tableC [3])) = length (StatefulBlock.Txs blkC)
   \<and> snd (AcceptBlock pack_table (unpack_table tableC) serverA blkC) = Returned None
   \<and> map_option
        (\<lambda>sb. (SequencerBlock.Txs sb ''41'', SequencerBlock.Txs sb ''42'',
               SequencerBlock.Txs sb ''43''))
        (blocksWithValidTxs (fst (AcceptBlock pack_table (unpack_table tableC) serverA blkC)) 13)
      = Some (Some [\<lparr>SEQTransaction.Namespace = ''41'', Tx_id = 101, Transaction = [1], Index = 0\<rparr>,
                    \<lparr>SEQTransaction.Namespace = ''41'', Tx_id = 102, Transaction = [2], Index = 1\<rparr>],
              Some [\<lparr>SEQTransaction.Namespace = ''42'', Tx_id = 103, Transaction = [3], Index = 2\<rparr>],
              None)"
proof -
  have a: "pack_table blkC = Inr [3]"
    by (simp add: pack_table_def blkC_def)
  have u: "unpack_table tableC [3]
             = \<lparr>block = Some (StatefulBlock.truncate blkC), results = resultsC, id_ptr = Some 13,
                err = None\<rparr>"
    by (simp add: tableC_def blkC_def)
  have l: "length (results (unpack_table tableC [3])) = length (StatefulBlock.Txs blkC)"
    by (simp add: u blkC_def txsC_def resultsC_def)
  have t: "StatefulBlock.Txs blkC = txsC"
    by (simp add: blkC_def)
  from partition_exact [of pack_table blkC "[3]" "unpack_table tableC" 13
      "StatefulBlock.truncate blkC" serverA, OF a _ _ l]
  show ?thesis
    using a l by (auto simp: u t partition_C)
qed

text \<open>
  C7 says that \<open>prev\<close> is the empty marker when the start height is zero. After a block of
  height \<open>2^64 - 1\<close> with identifier 30 is accepted, the query by height 0 looks up the key
  \<open>0 - 1\<close>, which wraps around to that height, and \<open>prev\<close> is the block 30.
\<close>

theorem prev_wraps_at_zero:
  "AcceptBlock pack_table (unpack_table tableMax) NewJSONRPCServer blkMax
     = (serverMax, Returned None)
   \<and> btree_Get (idsByHeight serverMax) 18446744073709551615 = Some 30
   \<and> Prev (computed (getBlockHeadersByHeight serverMax \<lparr>Height = 0, End = 180\<rparr> [zeroHeaders] 0))
       = \<lparr>BlockInfo.BlockId = 30\<rparr>"
  using serverMax_step
  by (simp add: getBlockHeadersByHeight_def btree_Ascend_def seek_def computed_def
      address_of_def Let_def btree_Get_def serverMax_index serverMax_def fixture_defs
      tableMax_def blkMax_def)

text \<open>
  C8. The query by start timestamp is the query by height at the height the time index
  holds for exactly that timestamp, and at height zero when it holds none; it never
  returns an error, and in an indexed state it returns nil with \<open>from\<close> that start height
  and \<open>blocks\<close> the window scanned from it.
\<close>

theorem start_height_by_timestamp:
  "getBlockHeadersByStart j args st reply =
     getBlockHeadersByHeight j
       \<lparr>Height = (case blocks j (Start args) of Some h \<Rightarrow> h | None \<Rightarrow> 0),
        End = GetBlockHeadersByStartArgs.End args\<rparr> st reply
   \<and> (\<forall>e. outcome (getBlockHeadersByStart j args st reply) \<noteq> Returned (Some e))
   \<and> (indexed j \<longrightarrow>
        outcome (getBlockHeadersByStart j args st reply) = Returned None
        \<and> From (computed (getBlockHeadersByStart j args st reply))
            = (case blocks j (Start args) of Some h \<Rightarrow> h | None \<Rightarrow> 0)
        \<and> Blocks (computed (getBlockHeadersByStart j args st reply))
            = window_blocks j (case blocks j (Start args) of Some h \<Rightarrow> h | None \<Rightarrow> 0)
                (GetBlockHeadersByStartArgs.End args))"
proof -
  let ?a = "\<lparr>Height = (case blocks j (Start args) of Some h \<Rightarrow> h | None \<Rightarrow> 0),
        End = GetBlockHeadersByStartArgs.End args\<rparr>"
  have 1: "getBlockHeadersByStart j args st reply = getBlockHeadersByHeight j ?a st reply"
    by (rule getBlockHeadersByStart_eq)
  have 2: "outcome (getBlockHeadersByStart j args st reply) \<noteq> Returned (Some e)" for e
    unfolding 1 by (rule never_an_error)
  have 3: "is_window j (Height ?a) (GetBlockHeadersByHeightArgs.End ?a)
             (getBlockHeadersByStart j args st reply)" if "indexed j"
    unfolding 1 using that by (rule getBlockHeadersByHeight_window)
  from 1 2 3 show ?thesis
    by (simp add: is_window_def)
qed

theorem start_height_by_timestamp_witness:
  "indexed serverA
   \<and> blocks serverA 999 = None
   \<and> outcome (getBlockHeadersByStart serverA \<lparr>Start = 999, End = 180\<rparr> [zeroHeaders] 0)
       = Returned None
   \<and> From (computed (getBlockHeadersByStart serverA \<lparr>Start = 999, End = 180\<rparr> [zeroHeaders] 0)) = 0
   \<and> Blocks (computed (getBlockHeadersByStart serverA \<lparr>Start = 999, End = 180\<rparr> [zeroHeaders] 0))
       = [\<lparr>BlockInfo.BlockId = 10\<rparr>, \<lparr>BlockInfo.BlockId = 11\<rparr>, \<lparr>BlockInfo.BlockId = 12\<rparr>]
   \<and> blocks serverA 150 = Some 1
   \<and> From (computed (getBlockHeadersByStart serverA \<lparr>Start = 150, End = 180\<rparr> [zeroHeaders] 0)) = 1
   \<and> Blocks (computed (getBlockHeadersByStart serverA \<lparr>Start = 150, End = 180\<rparr> [zeroHeaders] 0))
       = [\<lparr>BlockInfo.BlockId = 11\<rparr>, \<lparr>BlockInfo.BlockId = 12\<rparr>]"
proof -
  have n: "blocks serverA 999 = None" and s: "blocks serverA 150 = Some 1"
    by (simp_all add: serverA_blocks)
  note no_match = start_height_by_timestamp [of serverA "\<lparr>Start = 999, End = 180\<rparr>"
      "[zeroHeaders]" 0, THEN conjunct2, THEN conjunct2, rule_format, OF serverA_indexed]
  note match = start_height_by_timestamp [of serverA "\<lparr>Start = 150, End = 180\<rparr>"
      "[zeroHeaders]" 0, THEN conjunct2, THEN conjunct2, rule_format, OF serverA_indexed]
  from no_match match show ?thesis
    using serverA_indexed by (simp add: n s serverA_window_0_180 serverA_window_1_180)
qed

text \<open>
  C9. After every sequence of \<open>AcceptBlock\<close> calls that all return nil, starting from the
  new (empty) server, every identifier that the height index holds has a header in the
  header store (a non-nil one): the lookup height \<open>\<rightarrow>\<close> identifier \<open>\<rightarrow>\<close> header is total on
  the indexed heights.
\<close>

theorem headers_total:
  assumes "AcceptBlocks P U NewJSONRPCServer blks = Some j"
    and "btree_Get (idsByHeight j) h = Some i"
  shows "\<exists>b. headers j i = Some (Some b)"
proof -
  have "\<forall>h i. btree_Get (idsByHeight NewJSONRPCServer) h = Some i
          \<longrightarrow> (\<exists>b. headers NewJSONRPCServer i = Some (Some b))"
    by (simp add: NewJSONRPCServer_def btree_Get_def)
  from AcceptBlocks_total_headers [OF this assms(1)] assms(2) show ?thesis by blast
qed

theorem headers_total_witness:
  "AcceptBlocks pack_table (unpack_table tableA) NewJSONRPCServer [blkA0, blkA1, blkA2]
     = Some serverA
   \<and> btree_Get (idsByHeight serverA) 1 = Some 11
   \<and> (\<exists>b. headers serverA 11 = Some (Some b))"
proof -
  have g: "btree_Get (idsByHeight serverA) 1 = Some 11"
    by (simp add: serverA_index btree_Get_def)
  from headers_total [OF serverA_run g] serverA_run g show ?thesis by simp
qed

text \<open>
  C10. When a block is accepted and later, after any further blocks, a block with the same
  timestamp, the time index, which held the height of the earlier block under that
  timestamp, now holds the height of the later one; the query by start timestamp for that
  timestamp is the query by height at the later block's height; and unless another
  timestamp leads to it, no entry of the time index leads to the earlier block's height.
\<close>

theorem equal_timestamps_overwrite:
  assumes first: "AcceptBlock P U j blk1 = (j1, Returned None)"
    and between: "AcceptBlocks P U j1 blks = Some j1'"
    and second: "AcceptBlock P U j1' blk2 = (j2, Returned None)"
    and b1: "P blk1 = Inr m1" "block (U m1) = Some b1"
    and b2: "P blk2 = Inr m2" "block (U m2) = Some b2"
    and same: "StatefulBlock.Tmstmp b1 = StatefulBlock.Tmstmp b2"
  shows "blocks j1 (StatefulBlock.Tmstmp b1) = Some (StatefulBlock.Hght b1)
       \<and> blocks j2 (StatefulBlock.Tmstmp b1) = Some (StatefulBlock.Hght b2)
       \<and> getBlockHeadersByStart j2 \<lparr>Start = StatefulBlock.Tmstmp b1, End = e\<rparr> st reply
           = getBlockHeadersByHeight j2 \<lparr>Height = StatefulBlock.Hght b2, End = e\<rparr> st reply
       \<and> (StatefulBlock.Hght b1 \<noteq> StatefulBlock.Hght b2
            \<and> (\<forall>t. t \<noteq> StatefulBlock.Tmstmp b1 \<longrightarrow> blocks j1' t \<noteq> Some (StatefulBlock.Hght b1))
          \<longrightarrow> (\<forall>t. blocks j2 t \<noteq> Some (StatefulBlock.Hght b1)))"
proof -
  have t1: "blocks j1 = (blocks j)(StatefulBlock.Tmstmp b1 \<mapsto> StatefulBlock.Hght b1)"
    using first b1 by (rule AcceptBlock_time_index)
  have t2: "blocks j2 = (blocks j1')(StatefulBlock.Tmstmp b2 \<mapsto> StatefulBlock.Hght b2)"
    using second b2 by (rule AcceptBlock_time_index)
  have q: "getBlockHeadersByStart j2 \<lparr>Start = StatefulBlock.Tmstmp b1, End = e\<rparr> st reply
           = getBlockHeadersByHeight j2 \<lparr>Height = StatefulBlock.Hght b2, End = e\<rparr> st reply"
    by (simp add: getBlockHeadersByStart_eq t2 same)
  show ?thesis
    using q by (auto simp: t1 t2 same)
qed

theorem equal_timestamps_overwrite_witness:
  "AcceptBlock pack_table (unpack_table tableB) NewJSONRPCServer blkB0 = (serverB0, Returned None)
   \<and> AcceptBlocks pack_table (unpack_table tableB) serverB0 [] = Some serverB0
   \<and> AcceptBlock pack_table (unpack_table tableB) serverB0 blkB1 = (serverB, Returned None)
   \<and> StatefulBlock.Tmstmp (StatefulBlock.truncate blkB0) = 100
   \<and> StatefulBlock.Tmstmp (StatefulBlock.truncate blkB1) = 100
   \<and> StatefulBlock.Hght (StatefulBlock.truncate blkB0) = 0
   \<and> StatefulBlock.Hght (StatefulBlock.truncate blkB1) = 1
   \<and> blocks serverB0 100 = Some 0
   \<and> blocks serverB 100 = Some 1
   \<and> (\<forall>t. blocks serverB t \<noteq> Some 0)
   \<and> getBlockHeadersByStart serverB \<lparr>Start = 100, End = 180\<rparr> [zeroHeaders] 0
       = getBlockHeadersByHeight serverB \<lparr>Height = 1, End = 180\<rparr> [zeroHeaders] 0
   \<and> Blocks (computed (getBlockHeadersByHeight serverB \<lparr>Height = 1, End = 180\<rparr> [zeroHeaders] 0))
       = [\<lparr>BlockInfo.BlockId = 21\<rparr>]"
proof -
  have p0: "pack_table blkB0 = Inr [0]" and p1: "pack_table blkB1 = Inr [1]"
    by (simp_all add: pack_table_def blkB0_def blkB1_def)
  have u0: "block (unpack_table tableB [0]) = Some (StatefulBlock.truncate blkB0)"
    and u1: "block (unpack_table tableB [1]) = Some (StatefulBlock.truncate blkB1)"
    by (simp_all add: tableB_def blkB0_def blkB1_def)
  have f: "StatefulBlock.Tmstmp (StatefulBlock.truncate blkB0) = 100"
    "StatefulBlock.Tmstmp (StatefulBlock.truncate blkB1) = 100"
    "StatefulBlock.Hght (StatefulBlock.truncate blkB0) = 0"
    "StatefulBlock.Hght (StatefulBlock.truncate blkB1) = 1"
    by (simp_all add: StatefulBlock.truncate_def blkB0_def blkB1_def)
  have b: "AcceptBlocks pack_table (unpack_table tableB) serverB0 [] = Some serverB0"
    by simp
  have s: "StatefulBlock.Tmstmp (StatefulBlock.truncate blkB0)
             = StatefulBlock.Tmstmp (StatefulBlock.truncate blkB1)"
    by (simp add: f)
  have q: "Blocks (computed (getBlockHeadersByHeight serverB \<lparr>Height = 1, End = 180\<rparr>
                     [zeroHeaders] 0))
             = [\<lparr>BlockInfo.BlockId = 21\<rparr>]"
    by (simp add: getBlockHeadersByHeight_def btree_Ascend_def seek_def computed_def
        address_of_def Let_def btree_Get_def serverB_index serverB_headers
        StatefulBlock.truncate_def blkB0_def blkB1_def)
  from equal_timestamps_overwrite [OF serverB0_step b serverB_step p0 u0 p1 u1 s,
      of 180 "[zeroHeaders]" 0]
  show ?thesis
    using serverB0_step serverB_step q by (simp add: f serverB0_blocks)
qed

end
